theory Spec2Isabelle
  imports Complex_Main "HOL-Library.Sublist"
begin

section \<open>Errors raised by the service\<close>

text \<open>
  Every exception the modelled code can raise is a value of \<open>error\<close>; a computation
  that may raise returns \<open>error + 'a\<close> with \<open>Inl\<close> for the exception.
  \<open>ContentTypeError\<close> is the \<open>ValueError("API returned HTML instead of JSON ...")\<close>
  of \<open>_request_with_retry\<close>, \<open>NotFound\<close> the \<open>ValueError("... not found ...")\<close> of
  \<open>get_team\<close> and \<open>get_match\<close>, \<open>UpstreamFailure\<close> any exception of
  \<open>get_league_matches\<close> (HTTP status error, empty body, JSON parse failure).
\<close>

datatype fault = TimeoutException | NetworkError

datatype error =
    ZeroDivisionError
  | ContentTypeError
  | NetworkFault fault
  | UnboundLocalError
  | UpstreamFailure
  | TypeError
  | AttributeError
  | NotFound

section \<open>Token bucket (app/providers/openliga.py, class TokenBucket)\<close>

text \<open>
  Python floats are idealised as real numbers. The two readings of \<open>time.time()\<close> in
  \<open>acquire\<close> (on entry, and after the sleep) are inputs \<open>now\<close> and \<open>wake\<close>.
\<close>

record token_bucket =
  rate :: real
  burst :: int
  tokens :: real
  last_update :: real

definition TokenBucket :: "real \<Rightarrow> int \<Rightarrow> real \<Rightarrow> token_bucket" where
  "TokenBucket r b t0 = \<lparr>rate = r, burst = b, tokens = of_int b, last_update = t0\<rparr>"

text \<open>Lines 23 to 26 of \<open>acquire\<close>: the refill.\<close>

definition refill :: "real \<Rightarrow> token_bucket \<Rightarrow> token_bucket" where
  "refill now b =
     (let elapsed = now - last_update b
      in b\<lparr>tokens := min (of_int (burst b)) (tokens b + elapsed * rate b),
           last_update := now\<rparr>)"

text \<open>
  The whole of \<open>acquire\<close>. The first component is \<open>Inr None\<close> when the call returns
  without sleeping, \<open>Inr (Some w)\<close> when it slept \<open>w\<close> seconds, and the
  \<open>ZeroDivisionError\<close> of \<open>(1 - self.tokens) / self.rate\<close> when the rate is zero (the
  refilled state is then kept).
\<close>

definition acquire :: "real \<Rightarrow> real \<Rightarrow> token_bucket \<Rightarrow> (error + real option) \<times> token_bucket" where
  "acquire now wake b =
     (let b1 = refill now b
      in if 1 \<le> tokens b1 then (Inr None, b1\<lparr>tokens := tokens b1 - 1\<rparr>)
         else if rate b1 = 0 then (Inl ZeroDivisionError, b1)
         else (let wait_time = (1 - tokens b1) / rate b1
               in (Inr (Some wait_time), b1\<lparr>tokens := 0, last_update := wake\<rparr>)))"

text \<open>
  A finite sequence of \<open>acquire\<close> calls, each with its two clock readings. The result
  lists every state in which the \<open>tokens\<close> field can be read: the state before each
  call, the refilled state inside it, and the state after the last call.
\<close>

fun acquire_all :: "token_bucket \<Rightarrow> (real \<times> real) list \<Rightarrow> token_bucket list" where
  "acquire_all b [] = [b]"
| "acquire_all b ((now, wake) # cs) =
     b # refill now b # acquire_all (snd (acquire now wake b)) cs"

text \<open>The elapsed time \<open>now - last_update\<close> seen by every call of the sequence is non-negative.\<close>

fun elapsed_nonneg :: "token_bucket \<Rightarrow> (real \<times> real) list \<Rightarrow> bool" where
  "elapsed_nonneg b [] = True"
| "elapsed_nonneg b ((now, wake) # cs) =
     (last_update b \<le> now \<and> elapsed_nonneg (snd (acquire now wake b)) cs)"

definition bucket_inv :: "token_bucket \<Rightarrow> bool" where
  "bucket_inv b = (0 \<le> tokens b \<and> tokens b \<le> of_int (burst b))"


section \<open>Provider configuration (app/providers/config.py)\<close>

record provider_config =
  RATE_LIMIT_RPS :: real
  RATE_LIMIT_BURST :: int
  MAX_RETRIES :: int
  BACKOFF_BASE_SECONDS :: real
  BACKOFF_MAX_SECONDS :: real
  JITTER_ENABLED :: bool

section \<open>Backoff delay (OpenLigaProvider._calculate_backoff_delay)\<close>

text \<open>
  \<open>random.uniform(a, b)\<close> of the Python standard library returns
  \<open>a + (b - a) * random()\<close> with \<open>random()\<close> drawn from the unit interval; the draw is
  the input \<open>u\<close>. The attempt number is the index of a \<open>range\<close> loop, a natural number.
\<close>

definition uniform :: "real \<Rightarrow> real \<Rightarrow> real \<Rightarrow> real" where
  "uniform a b u = a + (b - a) * u"

definition calculate_backoff_delay :: "provider_config \<Rightarrow> real \<Rightarrow> nat \<Rightarrow> real" where
  "calculate_backoff_delay cfg u attempt =
     (let base_delay = BACKOFF_BASE_SECONDS cfg * 2 ^ attempt
      in if JITTER_ENABLED cfg
         then (let jitter = uniform 0 (base_delay * (1 / 10)) u
               in min (base_delay + jitter) (BACKOFF_MAX_SECONDS cfg))
         else min base_delay (BACKOFF_MAX_SECONDS cfg))"

section \<open>The retry loop (OpenLigaProvider._request_with_retry)\<close>

record response =
  status_code :: int
  content_type :: "string option"
  resp_text :: string

text \<open>What one call of \<open>self.client.request\<close> does: it returns a response or raises one of
  the two exception classes the loop catches.\<close>

datatype outcome = Response response | Raises fault

text \<open>\<open>str.lower()\<close> on the bytes of a header value.\<close>

definition ascii_lower :: "char \<Rightarrow> char" where
  "ascii_lower c =
     (case map_of (zip ''ABCDEFGHIJKLMNOPQRSTUVWXYZ'' ''abcdefghijklmnopqrstuvwxyz'') c of
        None \<Rightarrow> c | Some d \<Rightarrow> d)"

definition lower_content_type :: "response \<Rightarrow> string" where
  "lower_content_type r =
     map ascii_lower (case content_type r of None \<Rightarrow> [] | Some s \<Rightarrow> s)"

text \<open>The test of line 76: \<open>"text/html" in content_type and response.status_code == 200\<close>.\<close>

definition is_html_200 :: "response \<Rightarrow> bool" where
  "is_html_200 r = (sublist ''text/html'' (lower_content_type r) \<and> status_code r = 200)"

text \<open>
  The surroundings of one call, indexed by the attempt number: the outcome of the HTTP
  request, the two clock readings of the rate limiter, and the random draw of the jitter.
\<close>

record environment =
  request_outcome :: "nat \<Rightarrow> outcome"
  time_now :: "nat \<Rightarrow> real"
  time_wake :: "nat \<Rightarrow> real"
  random_draw :: "nat \<Rightarrow> real"

text \<open>
  The local variables and the effects of the loop: \<open>last_exception\<close>, \<open>response\<close>
  (\<open>None\<close> while unbound), the number of HTTP requests issued, the backoff sleeps in
  order, and the shared rate limiter.
\<close>

record retry_state =
  last_exception :: "fault option"
  last_response :: "response option"
  http_calls :: nat
  slept :: "real list"
  rate_limiter :: token_bucket

function request_loop ::
  "provider_config \<Rightarrow> environment \<Rightarrow> nat \<Rightarrow> retry_state \<Rightarrow> (error + response) \<times> retry_state" where
  "request_loop cfg env attempt st =
     (if int attempt < MAX_RETRIES cfg + 1 then
        (case acquire (time_now env attempt) (time_wake env attempt) (rate_limiter st) of
           (Inl e, b) \<Rightarrow> (Inl e, st\<lparr>rate_limiter := b\<rparr>)
         | (Inr w, b) \<Rightarrow>
             (let st1 = st\<lparr>rate_limiter := b, http_calls := http_calls st + 1\<rparr>
              in case request_outcome env attempt of
                   Response r \<Rightarrow>
                     (let st2 = st1\<lparr>last_response := Some r\<rparr>
                      in if is_html_200 r then (Inl ContentTypeError, st2)
                         else if status_code r < 500 \<and> status_code r \<noteq> 429 then (Inr r, st2)
                         else if int attempt < MAX_RETRIES cfg then
                           request_loop cfg env (Suc attempt)
                             (st2\<lparr>slept := slept st2 @
                                [calculate_backoff_delay cfg (random_draw env attempt) attempt]\<rparr>)
                         else (Inr r, st2))
                 | Raises f \<Rightarrow>
                     (let st2 = st1\<lparr>last_exception := Some f\<rparr>
                      in if int attempt < MAX_RETRIES cfg then
                           request_loop cfg env (Suc attempt)
                             (st2\<lparr>slept := slept st2 @
                                [calculate_backoff_delay cfg (random_draw env attempt) attempt]\<rparr>)
                         else (Inl (NetworkFault f), st2))))
      else (case last_exception st of
              Some f \<Rightarrow> (Inl (NetworkFault f), st)
            | None \<Rightarrow>
                (case last_response st of
                   None \<Rightarrow> (Inl UnboundLocalError, st)
                 | Some r \<Rightarrow> (Inr r, st))))"
  by pat_completeness auto
termination
  by (relation "measure (\<lambda>(cfg, env, attempt, st). nat (MAX_RETRIES cfg + 1 - int attempt))") auto

declare request_loop.simps [simp del]

definition request_with_retry ::
  "provider_config \<Rightarrow> environment \<Rightarrow> token_bucket \<Rightarrow> (error + response) \<times> retry_state" where
  "request_with_retry cfg env b =
     request_loop cfg env 0
       \<lparr>last_exception = None, last_response = None, http_calls = 0, slept = [],
        rate_limiter = b\<rparr>"

text \<open>An outcome after which the loop tries again while attempts remain: a caught
  exception, or a response with status 429 or at least 500.\<close>

definition retryable :: "outcome \<Rightarrow> bool" where
  "retryable oc =
     (case oc of Raises f \<Rightarrow> True | Response r \<Rightarrow> status_code r = 429 \<or> 500 \<le> status_code r)"



text \<open>Attempt \<open>k\<close> is made: every earlier attempt ended in a retryable outcome.\<close>

definition attempt_made :: "environment \<Rightarrow> nat \<Rightarrow> bool" where
  "attempt_made env k = (\<forall>j<k. retryable (request_outcome env j))"

text \<open>What the loop does with the outcome of the attempt at which it stops.\<close>

definition final_result :: "outcome \<Rightarrow> error + response" where
  "final_result oc =
     (case oc of
        Raises f \<Rightarrow> Inl (NetworkFault f)
      | Response r \<Rightarrow> if is_html_200 r then Inl ContentTypeError else Inr r)"

section \<open>JSON values and the Python built-ins applied to them\<close>

text \<open>
  What \<open>response.json()\<close> returns. A dictionary is the list of its items; its keys are
  distinct. \<open>JFloat\<close> carries the value of a finite float.
\<close>

datatype json =
    JNull
  | JBool bool
  | JInt int
  | JFloat real
  | JStr string
  | JList "json list"
  | JDict "(string \<times> json) list"

definition digit_char :: "nat \<Rightarrow> char" where
  "digit_char d = ''0123456789'' ! d"

function str_nat :: "nat \<Rightarrow> string" where
  "str_nat n = (if n < 10 then [digit_char n] else str_nat (n div 10) @ [digit_char (n mod 10)])"
  by pat_completeness auto
termination
  by (relation "measure (\<lambda>n. n)") auto

declare str_nat.simps [simp del]

definition str_int :: "int \<Rightarrow> string" where
  "str_int i = (if i < 0 then CHR ''-'' # str_nat (nat (- i)) else str_nat (nat i))"

text \<open>
  \<open>str(v)\<close>. The text Python prints for a float, a list or a dictionary is not defined
  by this repository; it is the parameter \<open>repr\<close>.
\<close>

definition py_str :: "(json \<Rightarrow> string) \<Rightarrow> json \<Rightarrow> string" where
  "py_str repr v =
     (case v of
        JNull \<Rightarrow> ''None''
      | JBool b \<Rightarrow> (if b then ''True'' else ''False'')
      | JInt i \<Rightarrow> str_int i
      | JStr s \<Rightarrow> s
      | JFloat x \<Rightarrow> repr v
      | JList xs \<Rightarrow> repr v
      | JDict kvs \<Rightarrow> repr v)"

text \<open>\<open>not v\<close> is \<open>\<not> py_truthy v\<close>.\<close>

definition py_truthy :: "json \<Rightarrow> bool" where
  "py_truthy v =
     (case v of
        JNull \<Rightarrow> False
      | JBool b \<Rightarrow> b
      | JInt i \<Rightarrow> i \<noteq> 0
      | JFloat x \<Rightarrow> x \<noteq> 0
      | JStr s \<Rightarrow> s \<noteq> []
      | JList xs \<Rightarrow> xs \<noteq> []
      | JDict kvs \<Rightarrow> kvs \<noteq> [])"

text \<open>\<open>obj.get(key, dflt)\<close>: only a dictionary has the method.\<close>

definition py_get :: "json \<Rightarrow> string \<Rightarrow> json \<Rightarrow> error + json" where
  "py_get obj key dflt =
     (case obj of
        JDict kvs \<Rightarrow> Inr (case map_of kvs key of None \<Rightarrow> dflt | Some v \<Rightarrow> v)
      | _ \<Rightarrow> Inl AttributeError)"

text \<open>\<open>for x in obj\<close>: a list gives its elements, a dictionary its keys, a string its
  characters; nothing else is iterable.\<close>

definition py_iter :: "json \<Rightarrow> error + json list" where
  "py_iter obj =
     (case obj of
        JList xs \<Rightarrow> Inr xs
      | JDict kvs \<Rightarrow> Inr (map (\<lambda>kv. JStr (fst kv)) kvs)
      | JStr s \<Rightarrow> Inr (map (\<lambda>c. JStr [c]) s)
      | _ \<Rightarrow> Inl TypeError)"

section \<open>The fallback searches (OpenLigaProvider.get_team, get_match)\<close>

text \<open>
  \<open>get_league_matches\<close> is the parameter \<open>fetch\<close>: for a league identifier it raises
  or returns the parsed body.
\<close>

type_synonym fetch = "string \<Rightarrow> error + json"

definition common_leagues :: "string list" where
  "common_leagues = [''bl1'', ''bl2'', ''pl'', ''sa'', ''ll'']"

text \<open>\<open>str(t.get("teamId"))\<close> for a team object \<open>t\<close>.\<close>

definition team_id_str :: "(json \<Rightarrow> string) \<Rightarrow> json \<Rightarrow> error + string" where
  "team_id_str repr t =
     (case py_get t ''teamId'' JNull of
        Inl e \<Rightarrow> Inl e
      | Inr i \<Rightarrow> Inr (py_str repr i))"

text \<open>The body of the inner loop of \<open>get_team\<close>, lines 154 to 157: \<open>Inr (Some t)\<close> is
  \<open>return t\<close>, \<open>Inr None\<close> falls through to the next match.\<close>

definition team_hit :: "(json \<Rightarrow> string) \<Rightarrow> json \<Rightarrow> json \<Rightarrow> error + json option" where
  "team_hit repr team_id match =
     (case py_get match ''team1'' (JDict []) of
        Inl e \<Rightarrow> Inl e
      | Inr t1 \<Rightarrow>
          (case team_id_str repr t1 of
             Inl e \<Rightarrow> Inl e
           | Inr s1 \<Rightarrow>
               if s1 = py_str repr team_id then Inr (Some t1)
               else (case py_get match ''team2'' (JDict []) of
                       Inl e \<Rightarrow> Inl e
                     | Inr t2 \<Rightarrow>
                         (case team_id_str repr t2 of
                            Inl e \<Rightarrow> Inl e
                          | Inr s2 \<Rightarrow>
                              if s2 = py_str repr team_id then Inr (Some t2)
                              else Inr None))))"

text \<open>The body of the loop of \<open>get_match\<close>, lines 176 and 177.\<close>

definition match_hit :: "(json \<Rightarrow> string) \<Rightarrow> json \<Rightarrow> json \<Rightarrow> error + json option" where
  "match_hit repr match_id match =
     (case py_get match ''matchID'' JNull of
        Inl e \<Rightarrow> Inl e
      | Inr i \<Rightarrow> if py_str repr i = py_str repr match_id then Inr (Some match) else Inr None)"

text \<open>\<open>for match in matches: ...\<close> with a body that returns, falls through or raises.\<close>

fun for_matches :: "(json \<Rightarrow> error + json option) \<Rightarrow> json list \<Rightarrow> error + json option" where
  "for_matches body [] = Inr None"
| "for_matches body (m # ms) =
     (case body m of
        Inl e \<Rightarrow> Inl e
      | Inr (Some t) \<Rightarrow> Inr (Some t)
      | Inr None \<Rightarrow> for_matches body ms)"

text \<open>Fetching one league and looping over its matches: lines 152 and 153 of \<open>get_team\<close>,
  lines 174 and 175 of \<open>get_match\<close>.\<close>

definition scan_league :: "(json \<Rightarrow> error + json option) \<Rightarrow> fetch \<Rightarrow> string \<Rightarrow> error + json option" where
  "scan_league body fetch league_id =
     (case fetch league_id of
        Inl e \<Rightarrow> Inl e
      | Inr matches \<Rightarrow>
          (case py_iter matches of
             Inl e \<Rightarrow> Inl e
           | Inr ms \<Rightarrow> for_matches body ms))"

text \<open>The outer loop of \<open>get_team\<close>: \<open>except Exception: continue\<close>, and the
  \<open>ValueError\<close> after the loop.\<close>

fun get_team_loop :: "(json \<Rightarrow> string) \<Rightarrow> fetch \<Rightarrow> json \<Rightarrow> string list \<Rightarrow> error + json" where
  "get_team_loop repr fetch team_id [] = Inl NotFound"
| "get_team_loop repr fetch team_id (l # ls) =
     (case scan_league (team_hit repr team_id) fetch l of
        Inl e \<Rightarrow> get_team_loop repr fetch team_id ls
      | Inr (Some t) \<Rightarrow> Inr t
      | Inr None \<Rightarrow> get_team_loop repr fetch team_id ls)"

definition get_team :: "(json \<Rightarrow> string) \<Rightarrow> fetch \<Rightarrow> json \<Rightarrow> error + json" where
  "get_team repr fetch team_id = get_team_loop repr fetch team_id common_leagues"

text \<open>\<open>get_match\<close>: the one league \<open>bl1\<close>, and every exception of the \<open>try\<close> block, the
  \<open>ValueError\<close> of line 178 included, becomes the \<open>ValueError\<close> of line 180.\<close>

definition get_match :: "(json \<Rightarrow> string) \<Rightarrow> fetch \<Rightarrow> json \<Rightarrow> error + json" where
  "get_match repr fetch match_id =
     (case (case scan_league (match_hit repr match_id) fetch ''bl1'' of
              Inl e \<Rightarrow> Inl e
            | Inr (Some m) \<Rightarrow> Inr m
            | Inr None \<Rightarrow> Inl NotFound) of
        Inl e \<Rightarrow> Inl NotFound
      | Inr m \<Rightarrow> Inr m)"

text \<open>What the scan of one league yields: its first hit, and nothing when the fetch fails,
  when the scan raises before a hit, or when no match is a hit.\<close>

definition league_yield :: "(json \<Rightarrow> error + json option) \<Rightarrow> fetch \<Rightarrow> string \<Rightarrow> json option" where
  "league_yield body fetch league_id =
     (case scan_league body fetch league_id of
        Inl e \<Rightarrow> None
      | Inr None \<Rightarrow> None
      | Inr (Some t) \<Rightarrow> Some t)"


subsection \<open>The search in the words of the specification\<close>

text \<open>
  The specification describes one search for both operations: scan an ordered list of
  candidate leagues, fetch each league's matches and scan them linearly for an identifier
  match; the first hit in scan order wins; a league that fails to fetch is skipped; with no
  hit in any candidate league the search fails with \<open>NotFound\<close>.
\<close>

definition json_field :: "json \<Rightarrow> string \<Rightarrow> json option" where
  "json_field obj key = (case obj of JDict kvs \<Rightarrow> map_of kvs key | _ \<Rightarrow> None)"

definition spec_id_equal :: "(json \<Rightarrow> string) \<Rightarrow> json option \<Rightarrow> json \<Rightarrow> bool" where
  "spec_id_equal repr field wanted =
     (case field of None \<Rightarrow> False | Some i \<Rightarrow> py_str repr i = py_str repr wanted)"

definition spec_pick_match :: "(json \<Rightarrow> string) \<Rightarrow> json \<Rightarrow> json \<Rightarrow> json option" where
  "spec_pick_match repr match_id m =
     (if spec_id_equal repr (json_field m ''matchID'') match_id then Some m else None)"

definition spec_pick_team :: "(json \<Rightarrow> string) \<Rightarrow> json \<Rightarrow> json \<Rightarrow> json option" where
  "spec_pick_team repr team_id m =
     (case json_field m ''team1'' of
        Some t1 \<Rightarrow>
          if spec_id_equal repr (json_field t1 ''teamId'') team_id then Some t1
          else (case json_field m ''team2'' of
                  Some t2 \<Rightarrow>
                    if spec_id_equal repr (json_field t2 ''teamId'') team_id then Some t2 else None
                | None \<Rightarrow> None)
      | None \<Rightarrow>
          (case json_field m ''team2'' of
             Some t2 \<Rightarrow>
               if spec_id_equal repr (json_field t2 ''teamId'') team_id then Some t2 else None
           | None \<Rightarrow> None))"

fun spec_first_pick :: "(json \<Rightarrow> json option) \<Rightarrow> json list \<Rightarrow> json option" where
  "spec_first_pick pick [] = None"
| "spec_first_pick pick (m # ms) =
     (case pick m of Some t \<Rightarrow> Some t | None \<Rightarrow> spec_first_pick pick ms)"

fun spec_scan :: "fetch \<Rightarrow> (json \<Rightarrow> json option) \<Rightarrow> string list \<Rightarrow> error + json" where
  "spec_scan fetch pick [] = Inl NotFound"
| "spec_scan fetch pick (l # ls) =
     (case fetch l of
        Inl e \<Rightarrow> spec_scan fetch pick ls
      | Inr matches \<Rightarrow>
          (case spec_first_pick pick (case matches of JList ms \<Rightarrow> ms | _ \<Rightarrow> []) of
             Some t \<Rightarrow> Inr t
           | None \<Rightarrow> spec_scan fetch pick ls))"

subsection \<open>Decimal numerals\<close>



section \<open>Validation and normalisation (app/decision_mapper.py)\<close>

type_synonym payload = "string \<Rightarrow> json option"

type_synonym details = "(string \<times> string) list"

definition validate_list_leagues :: "payload \<Rightarrow> bool \<times> details option" where
  "validate_list_leagues p = (True, None)"

definition validate_get_league_matches :: "payload \<Rightarrow> bool \<times> details option" where
  "validate_get_league_matches p =
     (if (case p ''leagueId'' of None \<Rightarrow> True | Some v \<Rightarrow> \<not> py_truthy v)
      then (False, Some [(''missing_field'', ''leagueId''), (''reason'', ''leagueId is required'')])
      else (True, None))"

definition validate_get_team :: "payload \<Rightarrow> bool \<times> details option" where
  "validate_get_team p =
     (if (case p ''teamId'' of None \<Rightarrow> True | Some v \<Rightarrow> \<not> py_truthy v)
      then (False, Some [(''missing_field'', ''teamId''), (''reason'', ''teamId is required'')])
      else (True, None))"

definition validate_get_match :: "payload \<Rightarrow> bool \<times> details option" where
  "validate_get_match p =
     (if (case p ''matchId'' of None \<Rightarrow> True | Some v \<Rightarrow> \<not> py_truthy v)
      then (False, Some [(''missing_field'', ''matchId''), (''reason'', ''matchId is required'')])
      else (True, None))"

text \<open>\<open>isinstance(data, list)\<close>, \<open>isinstance(data, dict)\<close> and \<open>len\<close> of a list.\<close>

definition is_list :: "json \<Rightarrow> bool" where
  "is_list v = (case v of JList xs \<Rightarrow> True | _ \<Rightarrow> False)"

definition is_dict :: "json \<Rightarrow> bool" where
  "is_dict v = (case v of JDict kvs \<Rightarrow> True | _ \<Rightarrow> False)"

definition list_len :: "json \<Rightarrow> int" where
  "list_len v = (case v of JList xs \<Rightarrow> int (length xs) | _ \<Rightarrow> 0)"

definition normalize_list_leagues :: "json \<Rightarrow> (string \<times> json) list" where
  "normalize_list_leagues data =
     [(''leagues'', if is_list data then data else JList []),
      (''count'', if is_list data then JInt (list_len data) else JInt 0)]"

definition normalize_get_league_matches :: "json \<Rightarrow> (string \<times> json) list" where
  "normalize_get_league_matches data =
     [(''matches'', if is_list data then data else JList []),
      (''count'', if is_list data then JInt (list_len data) else JInt 0)]"

definition normalize_get_team :: "json \<Rightarrow> (string \<times> json) list" where
  "normalize_get_team data = [(''team'', if is_dict data then data else JDict [])]"

definition normalize_get_match :: "json \<Rightarrow> (string \<times> json) list" where
  "normalize_get_match data = [(''match'', if is_dict data then data else JDict [])]"

text \<open>What a normalised result carries: the input itself when it has the expected shape,
  the empty container otherwise.\<close>

definition list_or_empty :: "json \<Rightarrow> json list" where
  "list_or_empty v = (case v of JList xs \<Rightarrow> xs | _ \<Rightarrow> [])"

definition dict_or_empty :: "json \<Rightarrow> (string \<times> json) list" where
  "dict_or_empty v = (case v of JDict kvs \<Rightarrow> kvs | _ \<Rightarrow> [])"

text \<open>A payload whose values are all strings, and the two ways in which such a payload
  lacks a required field.\<close>

definition string_payload :: "(string \<Rightarrow> string option) \<Rightarrow> payload" where
  "string_payload q = (\<lambda>k. map_option JStr (q k))"

definition absent_or_empty :: "(string \<Rightarrow> string option) \<Rightarrow> string \<Rightarrow> bool" where
  "absent_or_empty q field = (q field = None \<or> q field = Some [])"

text \<open>The failure a validator returns for a required field.\<close>

definition required_failure :: "string \<Rightarrow> bool \<times> details option" where
  "required_failure field =
     (False, Some [(''missing_field'', field), (''reason'', field @ '' is required'')])"

section \<open>Fixtures of tests/test_provider.py\<close>

definition test_config :: provider_config where
  "test_config =
     \<lparr>RATE_LIMIT_RPS = 100, RATE_LIMIT_BURST = 5, MAX_RETRIES = 2,
      BACKOFF_BASE_SECONDS = 1 / 10, BACKOFF_MAX_SECONDS = 30, JITTER_ENABLED = True\<rparr>"

definition test_bucket :: token_bucket where
  "test_bucket = TokenBucket 100 5 0"

definition response_500 :: response where
  "response_500 = \<lparr>status_code = 500, content_type = None, resp_text = []\<rparr>"

definition response_429 :: response where
  "response_429 = \<lparr>status_code = 429, content_type = None, resp_text = []\<rparr>"

definition response_json :: response where
  "response_json =
     \<lparr>status_code = 200, content_type = Some ''application/json'', resp_text = ''[]''\<rparr>"

definition response_html :: response where
  "response_html =
     \<lparr>status_code = 200, content_type = Some ''Text/HTML; charset=utf-8'',
      resp_text = ''<html>''\<rparr>"

definition env_of :: "(nat \<Rightarrow> outcome) \<Rightarrow> environment" where
  "env_of f = \<lparr>request_outcome = f, time_now = (\<lambda>k. real k), time_wake = (\<lambda>k. real k),
     random_draw = (\<lambda>k. 1 / 2)\<rparr>"

section \<open>Upstream data used in the examples\<close>

text \<open>In these examples no float, list or dictionary is ever converted to a string, so
  the text chosen for them is immaterial.\<close>

definition plain_repr :: "json \<Rightarrow> string" where
  "plain_repr v = []"

definition team_7 :: json where
  "team_7 = JDict [(''teamId'', JInt 7), (''teamName'', JStr ''Seven'')]"

definition team_X :: json where
  "team_X = JDict [(''teamId'', JStr ''X''), (''teamName'', JStr ''Ex'')]"

definition team_anonymous :: json where
  "team_anonymous = JDict [(''teamName'', JStr ''Nameless'')]"

definition match_5 :: json where
  "match_5 = JDict [(''matchID'', JInt 5), (''team1'', team_7), (''team2'', team_X)]"

definition match_6 :: json where
  "match_6 = JDict [(''matchID'', JInt 6), (''team1'', team_7), (''team2'', team_anonymous)]"

definition match_broken :: json where
  "match_broken = JDict [(''matchID'', JInt 4), (''team1'', JNull)]"

text \<open>League \<open>bl1\<close> fails to fetch, league \<open>bl2\<close> holds matches 5 and 6.\<close>

definition fetch_bl2_only :: fetch where
  "fetch_bl2_only l = (if l = ''bl2'' then Inr (JList [match_5, match_6]) else Inl UpstreamFailure)"

text \<open>League \<open>bl1\<close> holds a match whose \<open>team1\<close> is \<open>null\<close>, followed by match 5; the
  other leagues fail to fetch.\<close>

definition fetch_bl1_broken :: fetch where
  "fetch_bl1_broken l =
     (if l = ''bl1'' then Inr (JList [match_broken, match_5]) else Inl UpstreamFailure)"

section \<open>Properties of the token bucket\<close>

lemma refill_fields:
  "rate (refill now b) = rate b" "burst (refill now b) = burst b"
  "last_update (refill now b) = now"
  "tokens (refill now b) = min (of_int (burst b)) (tokens b + (now - last_update b) * rate b)"
  by (simp_all add: refill_def Let_def)

lemma acquire_rate_burst:
  "rate (snd (acquire now wake b)) = rate b" "burst (snd (acquire now wake b)) = burst b"
  by (simp_all add: acquire_def Let_def refill_fields)

lemma refill_inv:
  assumes "bucket_inv b" "0 \<le> rate b" "last_update b \<le> now"
  shows "bucket_inv (refill now b)"
proof -
  have "0 \<le> (now - last_update b) * rate b"
    using assms by simp
  then show ?thesis
    using assms by (simp add: bucket_inv_def refill_fields)
qed

lemma acquire_inv:
  assumes "bucket_inv b" "0 \<le> rate b" "last_update b \<le> now"
  shows "bucket_inv (snd (acquire now wake b))"
proof -
  have r: "bucket_inv (refill now b)"
    using assms by (rule refill_inv)
  then have "0 \<le> burst b"
    by (simp add: bucket_inv_def refill_fields)
  with r show ?thesis
    by (auto simp: acquire_def Let_def bucket_inv_def refill_fields)
qed

lemma acquire_all_inv:
  "bucket_inv b \<Longrightarrow> 0 \<le> rate b \<Longrightarrow> elapsed_nonneg b cs \<Longrightarrow>
     \<forall>s \<in> set (acquire_all b cs). bucket_inv s \<and> burst s = burst b"
proof (induction cs arbitrary: b)
  case Nil
  then show ?case by simp
next
  case (Cons c cs)
  obtain now wake where c: "c = (now, wake)" by (cases c)
  let ?b' = "snd (acquire now wake b)"
  from Cons.prems c have el: "last_update b \<le> now" and rest: "elapsed_nonneg ?b' cs"
    by simp_all
  have inv': "bucket_inv ?b'"
    using Cons.prems(1,2) el by (rule acquire_inv)
  have "\<forall>s \<in> set (acquire_all ?b' cs). bucket_inv s \<and> burst s = burst ?b'"
    using inv' Cons.prems(2) rest by (intro Cons.IH) (simp_all add: acquire_rate_burst)
  moreover have "bucket_inv (refill now b)"
    using Cons.prems(1,2) el by (rule refill_inv)
  ultimately show ?case
    using Cons.prems(1) c by (simp add: acquire_rate_burst refill_fields)
qed

text \<open>
  Claim C2. For every finite sequence of \<open>acquire()\<close> calls with non-negative elapsed
  times, on a bucket created with a non-negative burst and a non-negative rate, every
  observable state satisfies \<open>0 \<le> tokens \<le> capacity\<close>: the token count never exceeds
  the burst capacity and never goes negative.
\<close>

theorem token_bucket_tokens_in_range:
  assumes "0 \<le> bu" and "0 \<le> r" and "elapsed_nonneg (TokenBucket r bu t0) cs"
  shows "\<forall>s \<in> set (acquire_all (TokenBucket r bu t0) cs).
           0 \<le> tokens s \<and> tokens s \<le> of_int bu"
proof -
  have "bucket_inv (TokenBucket r bu t0)"
    using assms(1) by (simp add: bucket_inv_def TokenBucket_def)
  moreover have "0 \<le> rate (TokenBucket r bu t0)"
    using assms(2) by (simp add: TokenBucket_def)
  ultimately have "\<forall>s \<in> set (acquire_all (TokenBucket r bu t0) cs).
      bucket_inv s \<and> burst s = burst (TokenBucket r bu t0)"
    using assms(3) by (rule acquire_all_inv)
  then show ?thesis
    by (auto simp: bucket_inv_def TokenBucket_def)
qed


theorem token_bucket_tokens_in_range_witness:
  "elapsed_nonneg (TokenBucket 10 2 0) [(0, 0), (0, 0), (0, 1 / 10)] \<and>
   list_all (\<lambda>s. 0 \<le> tokens s \<and> tokens s \<le> 2)
     (acquire_all (TokenBucket 10 2 0) [(0, 0), (0, 0), (0, 1 / 10)])"
proof -
  have h: "elapsed_nonneg (TokenBucket 10 2 0) [(0, 0), (0, 0), (0, 1 / 10)]"
    by (simp add: acquire_def refill_def TokenBucket_def Let_def)
  have "\<forall>s \<in> set (acquire_all (TokenBucket 10 2 0) [(0, 0), (0, 0), (0, 1 / 10)]).
      0 \<le> tokens s \<and> tokens s \<le> of_int 2"
    using h by (intro token_bucket_tokens_in_range) simp_all
  then have "list_all (\<lambda>s. 0 \<le> tokens s \<and> tokens s \<le> 2)
      (acquire_all (TokenBucket 10 2 0) [(0, 0), (0, 0), (0, 1 / 10)])"
    unfolding list_all_iff by simp
  with h show ?thesis ..
qed

text \<open>
  Claim C3. \<open>acquire()\<close> is exactly this transition: the tokens are refilled to
  \<open>min(capacity, tokens + elapsed * refillRate)\<close> and the refill instant becomes
  \<open>now\<close>; when the refilled count is at least one, one token is consumed and the call
  returns without waiting; otherwise the caller waits \<open>(1 - tokens) / refillRate\<close>, and
  on waking the tokens are set to zero (nothing is credited for the wait) and the refill
  instant to the wake time. The refill rate is not zero.
\<close>

theorem acquire_transition:
  assumes "rate b \<noteq> 0"
  shows "acquire now wake b =
     (let refilled = min (of_int (burst b)) (tokens b + (now - last_update b) * rate b)
      in if 1 \<le> refilled
         then (Inr None, b\<lparr>tokens := refilled - 1, last_update := now\<rparr>)
         else (Inr (Some ((1 - refilled) / rate b)), b\<lparr>tokens := 0, last_update := wake\<rparr>))"
  using assms by (simp add: acquire_def refill_def Let_def)

theorem acquire_transition_witness:
  "acquire 0 (1 / 10) \<lparr>rate = 10, burst = 2, tokens = 0, last_update = 0\<rparr> =
     (Inr (Some (1 / 10)), \<lparr>rate = 10, burst = 2, tokens = 0, last_update = 1 / 10\<rparr>) \<and>
   acquire 3 4 \<lparr>rate = 10, burst = 2, tokens = 1 / 2, last_update = 0\<rparr> =
     (Inr None, \<lparr>rate = 10, burst = 2, tokens = 1, last_update = 3\<rparr>)"
  using acquire_transition [of "\<lparr>rate = 10, burst = 2, tokens = 0, last_update = 0\<rparr>" 0 "1 / 10"]
    acquire_transition [of "\<lparr>rate = 10, burst = 2, tokens = 1 / 2, last_update = 0\<rparr>" 3 4]
  by simp

section \<open>Properties of the retry loop\<close>


lemma acquire_returns:
  assumes "rate b \<noteq> 0"
  shows "\<exists>w b'. acquire now wake b = (Inr w, b') \<and> rate b' = rate b"
  using assms by (simp add: acquire_def refill_def Let_def)

lemma loop_stop:
  assumes "int k \<le> MAX_RETRIES cfg" "rate (rate_limiter st) \<noteq> 0"
    and "\<not> retryable (request_outcome env k) \<or> int k = MAX_RETRIES cfg"
  shows "fst (request_loop cfg env k st) = final_result (request_outcome env k) \<and>
         http_calls (snd (request_loop cfg env k st)) = http_calls st + 1"
proof -
  obtain w b' where a: "acquire (time_now env k) (time_wake env k) (rate_limiter st) = (Inr w, b')"
    using acquire_returns [OF assms(2)] by blast
  show ?thesis
  proof (cases "request_outcome env k")
    case (Response r)
    with assms a show ?thesis
      by (auto simp: request_loop.simps [of cfg env k st] Let_def final_result_def retryable_def
          is_html_200_def)
  next
    case (Raises f)
    with assms a show ?thesis
      by (auto simp: request_loop.simps [of cfg env k st] Let_def final_result_def retryable_def)
  qed
qed

lemma loop_continue:
  assumes "int k < MAX_RETRIES cfg" "rate (rate_limiter st) \<noteq> 0"
    and "retryable (request_outcome env k)"
  shows "\<exists>st'. request_loop cfg env k st = request_loop cfg env (Suc k) st' \<and>
           http_calls st' = http_calls st + 1 \<and> rate (rate_limiter st') \<noteq> 0"
proof -
  obtain w b' where a: "acquire (time_now env k) (time_wake env k) (rate_limiter st) = (Inr w, b')"
    and r: "rate b' = rate (rate_limiter st)"
    using acquire_returns [OF assms(2)] by blast
  show ?thesis
  proof (cases "request_outcome env k")
    case (Response r)
    with assms a r show ?thesis
      by (auto simp: request_loop.simps [of cfg env k st] Let_def retryable_def is_html_200_def)
  next
    case (Raises f)
    with assms a r show ?thesis
      by (auto simp: request_loop.simps [of cfg env k st] Let_def)
  qed
qed


lemma loop_master:
  "int k \<le> MAX_RETRIES cfg \<Longrightarrow> rate (rate_limiter st) \<noteq> 0 \<Longrightarrow>
   \<exists>m. k \<le> m \<and> int m \<le> MAX_RETRIES cfg \<and>
       (\<forall>j. k \<le> j \<and> j < m \<longrightarrow> retryable (request_outcome env j)) \<and>
       (retryable (request_outcome env m) \<longrightarrow> int m = MAX_RETRIES cfg) \<and>
       fst (request_loop cfg env k st) = final_result (request_outcome env m) \<and>
       http_calls (snd (request_loop cfg env k st)) = http_calls st + (m - k) + 1"
proof (induction "nat (MAX_RETRIES cfg - int k)" arbitrary: k st)
  case 0
  then have "int k = MAX_RETRIES cfg" by simp
  with loop_stop [of k cfg st env] 0 show ?case
    by (intro exI [of _ k]) auto
next
  case (Suc n)
  show ?case
  proof (cases "retryable (request_outcome env k)")
    case False
    with loop_stop [of k cfg st env] Suc.prems show ?thesis
      by (intro exI [of _ k]) auto
  next
    case True
    from Suc.hyps(2) have lt: "int k < MAX_RETRIES cfg" by simp
    from loop_continue [OF lt Suc.prems(2) True]
    obtain st' where st': "request_loop cfg env k st = request_loop cfg env (Suc k) st'"
      "http_calls st' = http_calls st + 1" "rate (rate_limiter st') \<noteq> 0"
      by blast
    have "n = nat (MAX_RETRIES cfg - int (Suc k))"
      using Suc.hyps(2) by simp
    from Suc.hyps(1) [OF this _ st'(3)] lt
    obtain m where m: "Suc k \<le> m" "int m \<le> MAX_RETRIES cfg"
      "\<forall>j. Suc k \<le> j \<and> j < m \<longrightarrow> retryable (request_outcome env j)"
      "retryable (request_outcome env m) \<longrightarrow> int m = MAX_RETRIES cfg"
      "fst (request_loop cfg env (Suc k) st') = final_result (request_outcome env m)"
      "http_calls (snd (request_loop cfg env (Suc k) st')) = http_calls st' + (m - Suc k) + 1"
      by auto
    have "\<forall>j. k \<le> j \<and> j < m \<longrightarrow> retryable (request_outcome env j)"
    proof (intro allI impI)
      fix j assume "k \<le> j \<and> j < m"
      then show "retryable (request_outcome env j)"
        using True m(3) by (cases "j = k") auto
    qed
    with m st' show ?thesis
      by (intro exI [of _ m]) auto
  qed
qed

lemma loop_calls_bound:
  "http_calls (snd (request_loop cfg env k st)) \<le> http_calls st + nat (MAX_RETRIES cfg + 1 - int k)"
proof (induction "nat (MAX_RETRIES cfg + 1 - int k)" arbitrary: k st)
  case 0
  then show ?case
    by (simp add: request_loop.simps [of cfg env k st] split: option.splits)
next
  case (Suc n)
  have n: "n = nat (MAX_RETRIES cfg + 1 - int (Suc k))"
    using Suc.hyps(2) by simp
  have step: "http_calls (snd (request_loop cfg env (Suc k) st')) \<le> http_calls st' + n" for st'
    using Suc.hyps(1) [OF n, of st'] n by simp
  show ?case
    using Suc.hyps(2) step
    apply (simp add: request_loop.simps [of cfg env k st] Let_def
        split: prod.splits sum.splits outcome.splits)
    apply (intro conjI allI impI)
    apply (auto intro: order_trans [OF step])
    done
qed

lemma retry_stops:
  assumes "0 \<le> MAX_RETRIES cfg" "rate b \<noteq> 0"
  shows "\<exists>m. int m \<le> MAX_RETRIES cfg \<and> attempt_made env m \<and>
           (retryable (request_outcome env m) \<longrightarrow> int m = MAX_RETRIES cfg) \<and>
           fst (request_with_retry cfg env b) = final_result (request_outcome env m) \<and>
           http_calls (snd (request_with_retry cfg env b)) = m + 1"
proof -
  let ?st = "\<lparr>last_exception = None, last_response = None, http_calls = 0, slept = [],
        rate_limiter = b\<rparr>"
  have "int 0 \<le> MAX_RETRIES cfg" "rate (rate_limiter ?st) \<noteq> 0"
    using assms by simp_all
  from loop_master [OF this, of env] show ?thesis
    by (auto simp: request_with_retry_def attempt_made_def)
qed

lemma retry_stops_at:
  assumes "rate b \<noteq> 0" "int k \<le> MAX_RETRIES cfg" "attempt_made env k"
    and "\<not> retryable (request_outcome env k) \<or> int k = MAX_RETRIES cfg"
  shows "fst (request_with_retry cfg env b) = final_result (request_outcome env k) \<and>
         http_calls (snd (request_with_retry cfg env b)) = k + 1"
proof -
  have "0 \<le> MAX_RETRIES cfg" using assms(2) by simp
  from retry_stops [OF this assms(1), of env]
  obtain m where m: "int m \<le> MAX_RETRIES cfg" "attempt_made env m"
    "retryable (request_outcome env m) \<longrightarrow> int m = MAX_RETRIES cfg"
    "fst (request_with_retry cfg env b) = final_result (request_outcome env m)"
    "http_calls (snd (request_with_retry cfg env b)) = m + 1"
    by blast
  have "\<not> m < k"
  proof
    assume "m < k"
    with assms(3) have "retryable (request_outcome env m)" by (simp add: attempt_made_def)
    with m(3) \<open>m < k\<close> assms(2) show False by simp
  qed
  moreover have "\<not> k < m"
  proof
    assume "k < m"
    with m(2) have "retryable (request_outcome env k)" by (simp add: attempt_made_def)
    with assms(4) \<open>k < m\<close> m(1) show False by simp
  qed
  ultimately have "m = k" by simp
  with m show ?thesis by simp
qed






text \<open>
  Claim C5. Whenever an attempt of \<open>requestWithRetry\<close> receives a response whose content
  type contains the HTML marker and whose status is 200, the call fails with
  \<open>ContentTypeError\<close> on that attempt: no further request is issued, whatever the number
  of attempts that remain.
\<close>

theorem html_200_fails_immediately:
  assumes "rate b \<noteq> 0" and "int k \<le> MAX_RETRIES cfg" and "attempt_made env k"
    and "request_outcome env k = Response r"
    and "sublist ''text/html'' (lower_content_type r)" and "status_code r = 200"
  shows "fst (request_with_retry cfg env b) = Inl ContentTypeError \<and>
         http_calls (snd (request_with_retry cfg env b)) = k + 1"
proof -
  have "\<not> retryable (request_outcome env k)"
    using assms(4,6) by (simp add: retryable_def)
  then have "\<not> retryable (request_outcome env k) \<or> int k = MAX_RETRIES cfg" ..
  from retry_stops_at [OF assms(1,2,3) this] assms(4,5,6) show ?thesis
    by (simp add: final_result_def is_html_200_def)
qed

theorem html_200_fails_immediately_witness:
  "fst (request_with_retry test_config
          (env_of (\<lambda>k. if k = 0 then Raises TimeoutException else Response response_html))
          test_bucket) = Inl ContentTypeError \<and>
   http_calls (snd (request_with_retry test_config
          (env_of (\<lambda>k. if k = 0 then Raises TimeoutException else Response response_html))
          test_bucket)) = 2"
proof -
  let ?env = "env_of (\<lambda>k. if k = 0 then Raises TimeoutException else Response response_html)"
  have "rate test_bucket \<noteq> 0" "int 1 \<le> MAX_RETRIES test_config" "attempt_made ?env 1"
    "request_outcome ?env 1 = Response response_html"
    "sublist ''text/html'' (lower_content_type response_html)"
    "status_code response_html = 200"
    by (simp_all add: test_config_def test_bucket_def TokenBucket_def attempt_made_def env_of_def
        retryable_def response_html_def lower_content_type_def ascii_lower_def sublist_code)
  from html_200_fails_immediately [OF this] show ?thesis by simp
qed

text \<open>
  Claim C6. For every configuration and every sequence of upstream outcomes the retry
  loop terminates (\<open>request_loop\<close> is a total function, by the termination proof of its
  definition) and issues at most \<open>maxRetries + 1\<close> HTTP requests.
\<close>

theorem retry_attempts_bounded:
  "http_calls (snd (request_with_retry cfg env b)) \<le> nat (MAX_RETRIES cfg + 1) \<and>
   (0 \<le> MAX_RETRIES cfg \<longrightarrow>
      int (http_calls (snd (request_with_retry cfg env b))) \<le> MAX_RETRIES cfg + 1)"
proof -
  have "http_calls (snd (request_with_retry cfg env b)) \<le> nat (MAX_RETRIES cfg + 1)"
    using loop_calls_bound [of cfg env 0 "\<lparr>last_exception = None, last_response = None,
      http_calls = 0, slept = [], rate_limiter = b\<rparr>"]
    by (simp add: request_with_retry_def)
  then show ?thesis by auto
qed

theorem retry_attempts_bounded_witness:
  "http_calls (snd (request_with_retry test_config (env_of (\<lambda>k. Response response_500)) test_bucket)) \<le> 3"
  using retry_attempts_bounded [of test_config "env_of (\<lambda>k. Response response_500)" test_bucket]
  by (simp add: test_config_def)

section \<open>Properties of the backoff delay\<close>





section \<open>Properties of validation and normalisation\<close>

text \<open>
  Claim C8. For every payload, validation of \<open>ListLeagues\<close> succeeds; validation of
  \<open>GetLeagueMatches\<close>, \<open>GetTeam\<close> and \<open>GetMatch\<close> fails exactly when \<open>leagueId\<close>,
  \<open>teamId\<close> or \<open>matchId\<close> respectively is absent or empty (for a value that is not a
  string: false in Python's sense), and the failure names the missing field with the reason
  \<open><field> is required\<close>.
\<close>

theorem validate_required_fields:
  "validate_list_leagues p = (True, None) \<and>
   validate_get_league_matches p =
     (if (case p ''leagueId'' of None \<Rightarrow> True | Some v \<Rightarrow> \<not> py_truthy v)
      then required_failure ''leagueId'' else (True, None)) \<and>
   validate_get_team p =
     (if (case p ''teamId'' of None \<Rightarrow> True | Some v \<Rightarrow> \<not> py_truthy v)
      then required_failure ''teamId'' else (True, None)) \<and>
   validate_get_match p =
     (if (case p ''matchId'' of None \<Rightarrow> True | Some v \<Rightarrow> \<not> py_truthy v)
      then required_failure ''matchId'' else (True, None)) \<and>
   validate_get_league_matches (string_payload q) =
     (if absent_or_empty q ''leagueId'' then required_failure ''leagueId'' else (True, None)) \<and>
   validate_get_team (string_payload q) =
     (if absent_or_empty q ''teamId'' then required_failure ''teamId'' else (True, None)) \<and>
   validate_get_match (string_payload q) =
     (if absent_or_empty q ''matchId'' then required_failure ''matchId'' else (True, None))"
  by (simp add: validate_list_leagues_def validate_get_league_matches_def validate_get_team_def
      validate_get_match_def required_failure_def string_payload_def absent_or_empty_def
      py_truthy_def split: option.splits)

theorem validate_required_fields_witness:
  "validate_get_league_matches Map.empty =
     (False, Some [(''missing_field'', ''leagueId''), (''reason'', ''leagueId is required'')]) \<and>
   validate_get_team (string_payload [''teamId'' \<mapsto> ''100'']) = (True, None) \<and>
   validate_get_match (string_payload [''matchId'' \<mapsto> '''']) =
     (False, Some [(''missing_field'', ''matchId''), (''reason'', ''matchId is required'')])"
  using validate_required_fields [of Map.empty "Map.empty"]
    validate_required_fields [of Map.empty "[''teamId'' \<mapsto> ''100'']"]
    validate_required_fields [of Map.empty "[''matchId'' \<mapsto> '''']"]
  by (simp add: required_failure_def absent_or_empty_def)

text \<open>
  Claim C9. For every input value, of any shape, each normalize function returns the fixed
  result shape of its operation: the input list with its length as count, or the empty
  list with count 0 when the input is not a list; the input dictionary, or the empty
  dictionary when the input is not a dictionary. The functions are total: no branch raises.
\<close>

theorem normalize_total_shape:
  "normalize_list_leagues data =
     [(''leagues'', JList (list_or_empty data)),
      (''count'', JInt (int (length (list_or_empty data))))] \<and>
   normalize_get_league_matches data =
     [(''matches'', JList (list_or_empty data)),
      (''count'', JInt (int (length (list_or_empty data))))] \<and>
   normalize_get_team data = [(''team'', JDict (dict_or_empty data))] \<and>
   normalize_get_match data = [(''match'', JDict (dict_or_empty data))]"
  by (cases data)
    (simp_all add: normalize_list_leagues_def normalize_get_league_matches_def
      normalize_get_team_def normalize_get_match_def is_list_def is_dict_def list_len_def
      list_or_empty_def dict_or_empty_def)

theorem normalize_total_shape_witness:
  "normalize_list_leagues (JStr ''oops'') = [(''leagues'', JList []), (''count'', JInt 0)] \<and>
   normalize_get_league_matches (JList [JInt 1, JInt 2]) =
     [(''matches'', JList [JInt 1, JInt 2]), (''count'', JInt 2)] \<and>
   normalize_get_team JNull = [(''team'', JDict [])] \<and>
   normalize_get_match (JDict [(''matchID'', JInt 7)]) =
     [(''match'', JDict [(''matchID'', JInt 7)])]"
  using normalize_total_shape [of "JStr ''oops''"]
    normalize_total_shape [of "JList [JInt 1, JInt 2]"]
    normalize_total_shape [of JNull]
    normalize_total_shape [of "JDict [(''matchID'', JInt 7)]"]
  by (simp add: list_or_empty_def dict_or_empty_def)

section \<open>Properties of the fallback searches\<close>

lemma first_decomp:
  "(\<exists>pre x post. a # xs = pre @ x # post \<and> P x \<and> (\<forall>y \<in> set pre. Q y)) \<longleftrightarrow>
     P a \<or> Q a \<and> (\<exists>pre x post. xs = pre @ x # post \<and> P x \<and> (\<forall>y \<in> set pre. Q y))"
proof
  assume "\<exists>pre x post. a # xs = pre @ x # post \<and> P x \<and> (\<forall>y \<in> set pre. Q y)"
  then obtain pre x post where h: "a # xs = pre @ x # post" "P x" "\<forall>y \<in> set pre. Q y"
    by blast
  show "P a \<or> Q a \<and> (\<exists>pre x post. xs = pre @ x # post \<and> P x \<and> (\<forall>y \<in> set pre. Q y))"
  proof (cases pre)
    case Nil
    with h show ?thesis by simp
  next
    case (Cons p pre')
    with h have "Q a" "xs = pre' @ x # post" "\<forall>y \<in> set pre'. Q y" by simp_all
    with h(2) show ?thesis by blast
  qed
next
  assume "P a \<or> Q a \<and> (\<exists>pre x post. xs = pre @ x # post \<and> P x \<and> (\<forall>y \<in> set pre. Q y))"
  then show "\<exists>pre x post. a # xs = pre @ x # post \<and> P x \<and> (\<forall>y \<in> set pre. Q y)"
  proof
    assume "P a"
    then have "a # xs = [] @ a # xs \<and> P a \<and> (\<forall>y \<in> set []. Q y)" by simp
    then show ?thesis by blast
  next
    assume "Q a \<and> (\<exists>pre x post. xs = pre @ x # post \<and> P x \<and> (\<forall>y \<in> set pre. Q y))"
    then obtain pre x post where h: "Q a" "xs = pre @ x # post" "P x" "\<forall>y \<in> set pre. Q y"
      by blast
    then have "a # xs = (a # pre) @ x # post \<and> P x \<and> (\<forall>y \<in> set (a # pre). Q y)" by simp
    then show ?thesis by blast
  qed
qed


lemma for_matches_hit_iff:
  "for_matches body ms = Inr (Some t) \<longleftrightarrow>
     (\<exists>pre m post. ms = pre @ m # post \<and> body m = Inr (Some t) \<and>
        (\<forall>m' \<in> set pre. body m' = Inr None))"
proof (induction ms)
  case Nil
  then show ?case by simp
next
  case (Cons a ms)
  have "for_matches body (a # ms) = Inr (Some t) \<longleftrightarrow>
      body a = Inr (Some t) \<or> body a = Inr None \<and> for_matches body ms = Inr (Some t)"
    by (simp split: sum.splits option.splits)
  then show ?case
    using Cons.IH
      first_decomp [of a ms "\<lambda>m. body m = Inr (Some t)" "\<lambda>m. body m = Inr None"]
    by simp
qed

lemma get_team_loop_step:
  "get_team_loop repr fetch team_id (l # ls) =
     (case league_yield (team_hit repr team_id) fetch l of
        Some t \<Rightarrow> Inr t
      | None \<Rightarrow> get_team_loop repr fetch team_id ls)"
  by (simp add: league_yield_def split: sum.splits option.splits)

lemma get_team_loop_skip:
  "\<forall>l \<in> set pre. league_yield (team_hit repr team_id) fetch l = None \<Longrightarrow>
     get_team_loop repr fetch team_id (pre @ rest) = get_team_loop repr fetch team_id rest"
  by (induction pre) (simp_all add: get_team_loop_step del: get_team_loop.simps(2))

lemma get_team_loop_Inr_iff:
  "get_team_loop repr fetch team_id ls = Inr t \<longleftrightarrow>
     (\<exists>pre l post. ls = pre @ l # post \<and>
        league_yield (team_hit repr team_id) fetch l = Some t \<and>
        (\<forall>l' \<in> set pre. league_yield (team_hit repr team_id) fetch l' = None))"
proof (induction ls)
  case Nil
  then show ?case by simp
next
  case (Cons a ls)
  let ?y = "league_yield (team_hit repr team_id) fetch"
  have "get_team_loop repr fetch team_id (a # ls) = Inr t \<longleftrightarrow>
      ?y a = Some t \<or> ?y a = None \<and> get_team_loop repr fetch team_id ls = Inr t"
    by (simp add: get_team_loop_step del: get_team_loop.simps(2) split: option.splits)
  then show ?case
    using Cons.IH first_decomp [of a ls "\<lambda>l. ?y l = Some t" "\<lambda>l. ?y l = None"]
    by simp
qed

lemma get_team_loop_Inl_iff:
  "get_team_loop repr fetch team_id ls = Inl e \<longleftrightarrow>
     e = NotFound \<and> (\<forall>l \<in> set ls. league_yield (team_hit repr team_id) fetch l = None)"
  by (induction ls)
    (auto simp: get_team_loop_step simp del: get_team_loop.simps(2) split: option.splits)

lemma league_yield_iff:
  "league_yield body fetch l = Some t \<longleftrightarrow>
     (\<exists>matches ms pre m post. fetch l = Inr matches \<and> py_iter matches = Inr ms \<and>
        ms = pre @ m # post \<and> body m = Inr (Some t) \<and>
        (\<forall>m' \<in> set pre. body m' = Inr None))"
proof -
  have "league_yield body fetch l = Some t \<longleftrightarrow>
      (\<exists>matches ms. fetch l = Inr matches \<and> py_iter matches = Inr ms \<and>
         for_matches body ms = Inr (Some t))"
    by (auto simp: league_yield_def scan_league_def split: sum.splits option.splits)
  then show ?thesis
    unfolding for_matches_hit_iff by blast
qed

lemma failed_fetch_yields_nothing:
  "fetch l = Inl e \<Longrightarrow> league_yield body fetch l = None"
  by (simp add: league_yield_def scan_league_def)

lemma get_match_yield:
  "get_match repr fetch match_id =
     (case league_yield (match_hit repr match_id) fetch ''bl1'' of
        Some m \<Rightarrow> Inr m
      | None \<Rightarrow> Inl NotFound)"
  by (simp add: get_match_def league_yield_def split: sum.splits option.splits)


text \<open>
  Claim C1, as amended. \<open>getTeam\<close> scans the fixed, ordered list of candidate leagues
  \<open>bl1, bl2, pl, sa, ll\<close>; \<open>getMatch\<close> looks in the single league \<open>bl1\<close>. The
  matches of a league are fetched and scanned linearly, and the first hit in scan order
  wins. A league yields nothing when its fetch fails, when its scan raises before a hit, or
  when it holds no hit; such a league is skipped and \<open>getTeam\<close> goes on with the next
  one, so its result does not depend on earlier leagues' failures. Each operation fails, and
  then with \<open>NotFound\<close>, exactly when no league it scans yields a hit.
\<close>

theorem fallback_search_first_hit:
  "(get_team repr fetch team_id = Inr t \<longleftrightarrow>
      (\<exists>pre l post. common_leagues = pre @ l # post \<and>
         league_yield (team_hit repr team_id) fetch l = Some t \<and>
         (\<forall>l' \<in> set pre. league_yield (team_hit repr team_id) fetch l' = None))) \<and>
   (get_team repr fetch team_id = Inl e \<longleftrightarrow>
      e = NotFound \<and>
      (\<forall>l \<in> set common_leagues. league_yield (team_hit repr team_id) fetch l = None)) \<and>
   get_match repr fetch match_id =
     (case league_yield (match_hit repr match_id) fetch ''bl1'' of
        Some m \<Rightarrow> Inr m
      | None \<Rightarrow> Inl NotFound) \<and>
   (league_yield body fetch league = Some hit \<longleftrightarrow>
      (\<exists>matches ms pre m post. fetch league = Inr matches \<and> py_iter matches = Inr ms \<and>
         ms = pre @ m # post \<and> body m = Inr (Some hit) \<and>
         (\<forall>m' \<in> set pre. body m' = Inr None))) \<and>
   ((\<forall>l \<in> set failed. \<exists>e'. fetch l = Inl e') \<longrightarrow>
      get_team_loop repr fetch team_id (failed @ rest) = get_team_loop repr fetch team_id rest)"
proof (intro conjI)
  show "get_team repr fetch team_id = Inr t \<longleftrightarrow>
      (\<exists>pre l post. common_leagues = pre @ l # post \<and>
         league_yield (team_hit repr team_id) fetch l = Some t \<and>
         (\<forall>l' \<in> set pre. league_yield (team_hit repr team_id) fetch l' = None))"
    unfolding get_team_def by (rule get_team_loop_Inr_iff)
  show "get_team repr fetch team_id = Inl e \<longleftrightarrow>
      e = NotFound \<and>
      (\<forall>l \<in> set common_leagues. league_yield (team_hit repr team_id) fetch l = None)"
    unfolding get_team_def by (rule get_team_loop_Inl_iff)
  show "get_match repr fetch match_id =
     (case league_yield (match_hit repr match_id) fetch ''bl1'' of
        Some m \<Rightarrow> Inr m
      | None \<Rightarrow> Inl NotFound)"
    by (rule get_match_yield)
  show "league_yield body fetch league = Some hit \<longleftrightarrow>
      (\<exists>matches ms pre m post. fetch league = Inr matches \<and> py_iter matches = Inr ms \<and>
         ms = pre @ m # post \<and> body m = Inr (Some hit) \<and>
         (\<forall>m' \<in> set pre. body m' = Inr None))"
    by (rule league_yield_iff)
  show "(\<forall>l \<in> set failed. \<exists>e'. fetch l = Inl e') \<longrightarrow>
      get_team_loop repr fetch team_id (failed @ rest) = get_team_loop repr fetch team_id rest"
  proof
    assume "\<forall>l \<in> set failed. \<exists>e'. fetch l = Inl e'"
    then have "\<forall>l \<in> set failed. league_yield (team_hit repr team_id) fetch l = None"
      using failed_fetch_yields_nothing by blast
    then show "get_team_loop repr fetch team_id (failed @ rest) =
        get_team_loop repr fetch team_id rest"
      by (rule get_team_loop_skip)
  qed
qed

lemmas example_defs =
  fetch_bl2_only_def fetch_bl1_broken_def match_5_def match_6_def match_broken_def
  team_7_def team_X_def team_anonymous_def plain_repr_def common_leagues_def

lemmas search_defs =
  league_yield_def scan_league_def py_iter_def team_hit_def match_hit_def team_id_str_def
  py_get_def py_str_def str_int_def digit_char_def

theorem fallback_search_first_hit_witness:
  "get_team plain_repr fetch_bl2_only (JStr ''X'') = Inr team_X \<and>
   get_team_loop plain_repr fetch_bl2_only (JStr ''X'') ([''bl1''] @ [''bl2'', ''pl'', ''sa'', ''ll'']) =
     get_team_loop plain_repr fetch_bl2_only (JStr ''X'') [''bl2'', ''pl'', ''sa'', ''ll''] \<and>
   get_match plain_repr fetch_bl1_broken (JStr ''5'') = Inr match_5"
proof -
  note inst = fallback_search_first_hit [of plain_repr fetch_bl2_only "JStr ''X''" team_X _ _ _ _ _
      "[''bl1'']" "[''bl2'', ''pl'', ''sa'', ''ll'']"]
  have "common_leagues = [''bl1''] @ ''bl2'' # [''pl'', ''sa'', ''ll''] \<and>
      league_yield (team_hit plain_repr (JStr ''X'')) fetch_bl2_only ''bl2'' = Some team_X \<and>
      (\<forall>l' \<in> set [''bl1'']. league_yield (team_hit plain_repr (JStr ''X'')) fetch_bl2_only l' = None)"
    by (simp add: example_defs search_defs str_nat.simps)
  then have 1: "get_team plain_repr fetch_bl2_only (JStr ''X'') = Inr team_X"
    using inst by blast
  have "\<forall>l \<in> set [''bl1'']. \<exists>e'. fetch_bl2_only l = Inl e'"
    by (simp add: fetch_bl2_only_def)
  then have 2: "get_team_loop plain_repr fetch_bl2_only (JStr ''X'')
        ([''bl1''] @ [''bl2'', ''pl'', ''sa'', ''ll'']) =
      get_team_loop plain_repr fetch_bl2_only (JStr ''X'') [''bl2'', ''pl'', ''sa'', ''ll'']"
    using inst by blast
  have "league_yield (match_hit plain_repr (JStr ''5'')) fetch_bl1_broken ''bl1'' = Some match_5"
    by (simp add: example_defs search_defs str_nat.simps)
  moreover have "get_match plain_repr fetch_bl1_broken (JStr ''5'') =
      (case league_yield (match_hit plain_repr (JStr ''5'')) fetch_bl1_broken ''bl1'' of
         Some m \<Rightarrow> Inr m
       | None \<Rightarrow> Inl NotFound)"
    using fallback_search_first_hit [of plain_repr fetch_bl1_broken _ _ _ "JStr ''5''"]
    by blast
  ultimately have 3: "get_match plain_repr fetch_bl1_broken (JStr ''5'') = Inr match_5"
    by simp
  from 1 2 3 show ?thesis by blast
qed

text \<open>
  Claim C1 as worded fails on the code. With \<open>bl1\<close> failing to fetch and match 5 held
  by \<open>bl2\<close>, the search of the specification over the candidate leagues finds match 5,
  while \<open>get_match\<close>, which never leaves \<open>bl1\<close>, fails with \<open>NotFound\<close>. With a
  match whose \<open>team1\<close> is \<open>null\<close> ahead of match 5 in \<open>bl1\<close>, the search of the
  specification finds team \<open>X\<close>, while the scan of \<open>get_team\<close> raises on the first
  match, skips the league and fails with \<open>NotFound\<close>.
\<close>

theorem fallback_search_counterexample:
  "spec_scan fetch_bl2_only (spec_pick_match plain_repr (JStr ''5'')) common_leagues = Inr match_5 \<and>
   get_match plain_repr fetch_bl2_only (JStr ''5'') = Inl NotFound \<and>
   spec_scan fetch_bl1_broken (spec_pick_team plain_repr (JStr ''X'')) common_leagues = Inr team_X \<and>
   get_team plain_repr fetch_bl1_broken (JStr ''X'') = Inl NotFound"
  by (simp add: example_defs search_defs str_nat.simps get_match_def get_team_def
      spec_pick_match_def spec_pick_team_def spec_id_equal_def json_field_def)


section \<open>Properties of the string comparison of identifiers\<close>









end
